theory Spec2Isabelle
  imports Complex_Main
begin

section \<open>Data model\<close>

text \<open>
  The program is \<^verbatim>\<open>src/main.py\<close>: one HTTP handler, \<^verbatim>\<open>analyze_trade\<close>, that hands a
  portfolio, a transaction and a market snapshot to three rule evaluators, each of which may
  post feedback to an external sink.

  The handler receives JSON objects. A key that may be absent is an \<open>option\<close> field
  (\<open>None\<close> is the absent key, which is what \<^verbatim>\<open>dict.get\<close> tests). Numbers are Python
  \<^verbatim>\<open>int\<close> or \<^verbatim>\<open>float\<close>; they are modelled as exact rationals, so the rounding,
  overflow and NaN of binary floating point are outside the model. A field that holds a
  value of another JSON type (a string where a number is read) is excluded by the types.
\<close>

record holding =
  h_activeSymbol :: "string option"
  h_quantity :: "rat option"

record portafolio =
  p_id :: "string option"
  p_cash :: "rat option"
  p_holdings :: "holding list option"

record transaction =
  t_portafolioId :: "string option"
  t_activeSymbol :: "string option"
  t_type :: "string option"
  t_price :: "rat option"
  t_amount :: "rat option"

record ticker =
  k_price :: "rat option"
  k_best_ask :: "rat option"
  k_best_bid :: "rat option"
  k_price_percent_chg_24_h :: "rat option"

type_synonym market_data = "string \<rightharpoonup> ticker"

record request =
  r_portafolio :: "portafolio option"
  r_transaction :: "transaction option"
  r_marketData :: "market_data option"

text \<open>The empty JSON object \<^verbatim>\<open>{}\<close>, the default of the three top-level keys.\<close>

definition empty_portafolio :: portafolio where
  "empty_portafolio = \<lparr>p_id = None, p_cash = None, p_holdings = None\<rparr>"

definition empty_transaction :: transaction where
  "empty_transaction =
     \<lparr>t_portafolioId = None, t_activeSymbol = None, t_type = None, t_price = None, t_amount = None\<rparr>"

text \<open>\<^verbatim>\<open>d.get(key, default)\<close>: the value of a present key, the default for an absent one.\<close>

definition get_or :: "'a option \<Rightarrow> 'a \<Rightarrow> 'a" where
  "get_or field dflt = (case field of None \<Rightarrow> dflt | Some v \<Rightarrow> v)"

text \<open>
  \<^verbatim>\<open>symbol in market_data\<close> followed by \<^verbatim>\<open>market_data[symbol]\<close>. The symbol is
  \<^verbatim>\<open>None\<close> when the key \<^verbatim>\<open>activeSymbol\<close> is absent, and \<^verbatim>\<open>None\<close> is not a key of a
  JSON object.
\<close>

definition ticker_of :: "market_data \<Rightarrow> string option \<Rightarrow> ticker option" where
  "ticker_of market_data symbol = (case symbol of None \<Rightarrow> None | Some s \<Rightarrow> market_data s)"

text \<open>
  \<^verbatim>\<open>d[k] = v\<close> on a Python dict, which keeps its keys in insertion order: a key already
  present keeps its place and takes the new value, a new key goes to the end.
\<close>

fun dict_set :: "('k \<times> 'v) list \<Rightarrow> 'k \<Rightarrow> 'v \<Rightarrow> ('k \<times> 'v) list" where
  "dict_set [] k v = [(k, v)]"
| "dict_set ((k', v') # items) k v =
     (if k' = k then (k, v) # items else (k', v') # dict_set items k v)"

section \<open>Feedback and exceptions\<close>

text \<open>
  The three values of the payload's \<^verbatim>\<open>type\<close> key, and the six message templates of the
  source. A message is kept as its template and the values formatted into it; the fixed
  wording and the decimal rendering (\<^verbatim>\<open>:.0f\<close>, \<^verbatim>\<open>:.2f\<close>) are not modelled.
\<close>

datatype feedback_type = RISK_ALERT | COST_ANALYSIS | BEHAVIORAL_NUDGE

datatype message =
    AllInMsg rat "string option"
  | ConcentrationMsg rat string
  | CommissionMsg "string option" rat
  | SlippageMsg "string option" "string option" rat
  | FomoMsg "string option" rat
  | PanicMsg "string option" rat

record feedback =
  portafolioId :: "string option"
  message :: message
  ftype :: feedback_type

datatype py_error = ZeroDivisionError

text \<open>
  A run of a function of the source: the feedback it has sent, in order, and then either the
  exception that escaped it (\<open>Inl\<close>) or the value it returned (\<open>Inr\<close>).
\<close>

type_synonym 'a run = "feedback list \<times> (py_error + 'a)"

definition returns :: "'a \<Rightarrow> 'a run" where
  "returns x = ([], Inr x)"

definition raises :: "py_error \<Rightarrow> 'a run" where
  "raises e = ([], Inl e)"

definition and_then :: "'a run \<Rightarrow> ('a \<Rightarrow> 'b run) \<Rightarrow> 'b run" where
  "and_then r k =
     (case r of
        (out, Inl e) \<Rightarrow> (out, Inl e)
      | (out, Inr x) \<Rightarrow> (case k x of (out', y) \<Rightarrow> (out @ out', y)))"

definition sent :: "'a run \<Rightarrow> feedback list" where
  "sent r = fst r"

definition outcome :: "'a run \<Rightarrow> py_error + 'a" where
  "outcome r = snd r"

text \<open>\<^verbatim>\<open>a / b\<close> on Python numbers raises on a zero divisor.\<close>

definition truediv :: "rat \<Rightarrow> rat \<Rightarrow> rat run" where
  "truediv a b = (if b = 0 then raises ZeroDivisionError else returns (a / b))"

text \<open>
  \<^verbatim>\<open>send_feedback_to_nestjs\<close> builds the payload and posts it. Both of its
  \<^verbatim>\<open>except\<close> clauses log and swallow a failed delivery, so the call always returns; what
  is recorded is the payload handed to the sink.
\<close>

definition send_feedback_to_nestjs :: "string option \<Rightarrow> message \<Rightarrow> feedback_type \<Rightarrow> unit run" where
  "send_feedback_to_nestjs portafolio_id msg type =
     ([\<lparr>portafolioId = portafolio_id, message = msg, ftype = type\<rparr>], Inr ())"

definition SIMULATED_FEE_RATE :: rat where
  "SIMULATED_FEE_RATE = 5 / 1000"

definition SLIPPAGE_TOLERANCE :: rat where
  "SLIPPAGE_TOLERANCE = 1 / 1000"

section \<open>The risk evaluator\<close>

text \<open>The two quantities of the all-in rule (lines 72 and 73).\<close>

definition tx_cost :: "transaction \<Rightarrow> rat" where
  "tx_cost transaction = get_or (t_amount transaction) 0 * get_or (t_price transaction) 0"

definition cash_before_tx :: "portafolio \<Rightarrow> transaction \<Rightarrow> rat" where
  "cash_before_tx portafolio transaction = get_or (p_cash portafolio) 0 + tx_cost transaction"

text \<open>
  Lines 71 to 79. The condition is \<^verbatim>\<open>cash_before_tx > 0 and (tx_cost / cash_before_tx) > 0.90\<close>:
  the division is evaluated only when the left operand holds, and once more for the message.
\<close>

definition all_in_rule :: "portafolio \<Rightarrow> transaction \<Rightarrow> unit run" where
  "all_in_rule portafolio transaction =
     (if t_type transaction = Some ''BUY'' then
        (if cash_before_tx portafolio transaction > 0 then
           and_then (truediv (tx_cost transaction) (cash_before_tx portafolio transaction))
             (\<lambda>ratio.
                if ratio > 90 / 100 then
                  and_then (truediv (tx_cost transaction) (cash_before_tx portafolio transaction))
                    (\<lambda>used.
                       send_feedback_to_nestjs (p_id portafolio)
                         (AllInMsg (used * 100) (t_activeSymbol transaction)) RISK_ALERT)
                else returns ())
         else returns ())
      else returns ())"

text \<open>
  One pass of the loop of lines 88 to 96 over the pair \<open>(total_value, asset_values)\<close>.
  \<^verbatim>\<open>float(...)\<close> of a number is that number.
\<close>

definition value_holding ::
  "market_data \<Rightarrow> holding \<Rightarrow> rat \<times> (string \<times> rat) list \<Rightarrow> rat \<times> (string \<times> rat) list" where
  "value_holding market_data holding acc =
     (case acc of (total_value, asset_values) \<Rightarrow>
        (case h_activeSymbol holding of
           None \<Rightarrow> (total_value, asset_values)
         | Some symbol \<Rightarrow>
             (case market_data symbol of
                None \<Rightarrow> (total_value, asset_values)
              | Some tk \<Rightarrow>
                  (let price = get_or (k_price tk) 0;
                       val = get_or (h_quantity holding) 0 * price
                   in (total_value + val, dict_set asset_values symbol val)))))"

definition holdings_of :: "portafolio \<Rightarrow> holding list" where
  "holdings_of portafolio = get_or (p_holdings portafolio) []"

definition valuation :: "portafolio \<Rightarrow> market_data \<Rightarrow> rat \<times> (string \<times> rat) list" where
  "valuation portafolio market_data =
     fold (value_holding market_data) (holdings_of portafolio) (get_or (p_cash portafolio) 0, [])"

definition total_value :: "portafolio \<Rightarrow> market_data \<Rightarrow> rat" where
  "total_value portafolio market_data = fst (valuation portafolio market_data)"

definition asset_values :: "portafolio \<Rightarrow> market_data \<Rightarrow> (string \<times> rat) list" where
  "asset_values portafolio market_data = snd (valuation portafolio market_data)"

text \<open>The loop of lines 102 to 106 over \<^verbatim>\<open>asset_values.items()\<close>.\<close>

fun concentration_loop :: "string option \<Rightarrow> rat \<Rightarrow> (string \<times> rat) list \<Rightarrow> unit run" where
  "concentration_loop portafolio_id total_val [] = returns ()"
| "concentration_loop portafolio_id total_val ((symbol, val) # items) =
     and_then (truediv val total_val)
       (\<lambda>share.
          and_then
            (if share * 100 > 60 then
               send_feedback_to_nestjs portafolio_id (ConcentrationMsg (share * 100) symbol) RISK_ALERT
             else returns ())
            (\<lambda>_. concentration_loop portafolio_id total_val items))"

definition concentration_rule :: "portafolio \<Rightarrow> market_data \<Rightarrow> unit run" where
  "concentration_rule portafolio market_data =
     (if total_value portafolio market_data = 0 then returns ()
      else concentration_loop (p_id portafolio) (total_value portafolio market_data)
             (asset_values portafolio market_data))"

definition analyze_risk :: "portafolio \<Rightarrow> transaction \<Rightarrow> market_data \<Rightarrow> unit run" where
  "analyze_risk portafolio transaction market_data =
     and_then (all_in_rule portafolio transaction)
       (\<lambda>_. concentration_rule portafolio market_data)"

section \<open>The cost and slippage evaluator\<close>

definition tx_price :: "transaction \<Rightarrow> rat" where
  "tx_price transaction = get_or (t_price transaction) 0"

definition tx_amount :: "transaction \<Rightarrow> rat" where
  "tx_amount transaction = get_or (t_amount transaction) 0"

definition commission_paid :: "transaction \<Rightarrow> rat" where
  "commission_paid transaction = (tx_amount transaction * tx_price transaction) * SIMULATED_FEE_RATE"

text \<open>Lines 133 to 143: the slippage of a transaction against the ticker of its symbol.\<close>

definition slippage :: "transaction \<Rightarrow> ticker \<Rightarrow> rat" where
  "slippage transaction tk =
     (if t_type transaction = Some ''BUY'' then
        (let best_ask = get_or (k_best_ask tk) (tx_price transaction) in
         if tx_price transaction > best_ask then tx_price transaction - best_ask else 0)
      else if t_type transaction = Some ''SELL'' then
        (let best_bid = get_or (k_best_bid tk) (tx_price transaction) in
         if tx_price transaction < best_bid then best_bid - tx_price transaction else 0)
      else 0)"

text \<open>
  Lines 110 to 151. The commission message \<open>msg_cost\<close> is built and then dropped: the call
  that would send it is commented out in the source.
\<close>

definition analyze_costs_and_slippage :: "transaction \<Rightarrow> market_data \<Rightarrow> unit run" where
  "analyze_costs_and_slippage transaction market_data =
     (let portafolio_id = t_portafolioId transaction;
          symbol = t_activeSymbol transaction;
          tx_type = t_type transaction;
          msg_cost = CommissionMsg symbol (commission_paid transaction)
      in case ticker_of market_data symbol of
           None \<Rightarrow> returns ()
         | Some tk \<Rightarrow>
             (if slippage transaction tk > 0 then
                and_then (truediv (slippage transaction tk) (tx_price transaction))
                  (\<lambda>ratio.
                     if ratio > SLIPPAGE_TOLERANCE then
                       and_then (truediv (slippage transaction tk) (tx_price transaction))
                         (\<lambda>r. send_feedback_to_nestjs portafolio_id
                                 (SlippageMsg tx_type symbol (r * 100)) COST_ANALYSIS)
                     else returns ())
              else returns ()))"

section \<open>The behaviour evaluator\<close>

definition analyze_behavior :: "transaction \<Rightarrow> market_data \<Rightarrow> unit run" where
  "analyze_behavior transaction market_data =
     (let portafolio_id = t_portafolioId transaction;
          symbol = t_activeSymbol transaction;
          tx_type = t_type transaction
      in case ticker_of market_data symbol of
           None \<Rightarrow> returns ()
         | Some tk \<Rightarrow>
             (let price_change_24h = get_or (k_price_percent_chg_24_h tk) 0 in
              if tx_type = Some ''BUY'' then
                (if price_change_24h > 0 then
                   send_feedback_to_nestjs portafolio_id (FomoMsg symbol price_change_24h)
                     BEHAVIORAL_NUDGE
                 else returns ())
              else if tx_type = Some ''SELL'' then
                (if price_change_24h < 0 then
                   send_feedback_to_nestjs portafolio_id (PanicMsg symbol price_change_24h)
                     BEHAVIORAL_NUDGE
                 else returns ())
              else returns ()))"

section \<open>The handler\<close>

text \<open>
  The two response bodies of \<^verbatim>\<open>/analyze-trade\<close>. \<^verbatim>\<open>not portafolio_id\<close> holds of an
  absent identifier and of the empty string.
\<close>

datatype response = ErrorBody string | StatusBody string

definition analyze_trade :: "request \<Rightarrow> response run" where
  "analyze_trade data =
     (let portafolio = get_or (r_portafolio data) empty_portafolio;
          transaction = get_or (r_transaction data) empty_transaction;
          market_data = get_or (r_marketData data) Map.empty;
          portafolio_id = p_id portafolio
      in if portafolio_id = None \<or> portafolio_id = Some [] then
           returns (ErrorBody ''No portafolio ID provided'')
         else
           and_then (analyze_risk portafolio transaction market_data)
             (\<lambda>_. and_then (analyze_costs_and_slippage transaction market_data)
                (\<lambda>_. and_then (analyze_behavior transaction market_data)
                   (\<lambda>_. returns (StatusBody ''analysis_queued'')))))"


section \<open>Vocabulary of the properties\<close>

text \<open>
  The value the loop of lines 88 to 96 gives one holding: quantity times snapshot price when
  the holding's symbol is a key of the snapshot, nothing otherwise.
\<close>

definition holding_value :: "market_data \<Rightarrow> holding \<Rightarrow> rat" where
  "holding_value market_data holding =
     (case ticker_of market_data (h_activeSymbol holding) of
        None \<Rightarrow> 0
      | Some tk \<Rightarrow> get_or (h_quantity holding) 0 * get_or (k_price tk) 0)"

text \<open>
  The symbols of the holdings that are keys of the snapshot, in the order of the holdings,
  with repetitions.
\<close>

definition valued_symbol :: "market_data \<Rightarrow> holding \<Rightarrow> string list" where
  "valued_symbol market_data holding =
     (case h_activeSymbol holding of
        None \<Rightarrow> []
      | Some s \<Rightarrow> (if market_data s = None then [] else [s]))"

definition valued_symbols :: "portafolio \<Rightarrow> market_data \<Rightarrow> string list" where
  "valued_symbols portafolio market_data =
     concat (map (valued_symbol market_data) (holdings_of portafolio))"

definition valued_as :: "market_data \<Rightarrow> string \<Rightarrow> holding \<Rightarrow> bool" where
  "valued_as market_data s holding \<longleftrightarrow> h_activeSymbol holding = Some s \<and> market_data s \<noteq> None"

text \<open>
  Each element once, in the order of its first occurrence: the order in which a Python dict
  lists keys that were assigned in the order \<open>xs\<close>.
\<close>

fun first_seen :: "'a list \<Rightarrow> 'a list" where
  "first_seen [] = []"
| "first_seen (x # xs) = x # filter (\<lambda>y. y \<noteq> x) (first_seen xs)"

definition key_insert :: "'a \<Rightarrow> 'a list \<Rightarrow> 'a list" where
  "key_insert k ks = (if k \<in> set ks then ks else ks @ [k])"

text \<open>
  The percentage of line 103 for a symbol, where the source computes one: the total is not
  zero and the symbol is a key of \<open>asset_values\<close>. The feedback of lines 104 to 106 for
  that symbol follows.
\<close>

definition concentration :: "portafolio \<Rightarrow> market_data \<Rightarrow> string \<Rightarrow> rat option" where
  "concentration portafolio market_data symbol =
     (if total_value portafolio market_data = 0 then None
      else (case map_of (asset_values portafolio market_data) symbol of
              None \<Rightarrow> None
            | Some val \<Rightarrow> Some (val / total_value portafolio market_data * 100)))"

definition concentration_alerts_for :: "portafolio \<Rightarrow> market_data \<Rightarrow> string \<Rightarrow> feedback list" where
  "concentration_alerts_for portafolio market_data symbol =
     (case concentration portafolio market_data symbol of
        None \<Rightarrow> []
      | Some c \<Rightarrow>
          (if 60 < c then
             [\<lparr>portafolioId = p_id portafolio, message = ConcentrationMsg c symbol,
               ftype = RISK_ALERT\<rparr>]
           else []))"

text \<open>
  The two kinds of \<open>RISK_ALERT\<close>, told apart by the message template.
\<close>

definition is_all_in_alert :: "feedback \<Rightarrow> bool" where
  "is_all_in_alert f \<longleftrightarrow>
     ftype f = RISK_ALERT \<and> (case message f of AllInMsg _ _ \<Rightarrow> True | _ \<Rightarrow> False)"

definition is_concentration_alert :: "feedback \<Rightarrow> bool" where
  "is_concentration_alert f \<longleftrightarrow>
     ftype f = RISK_ALERT \<and> (case message f of ConcentrationMsg _ _ \<Rightarrow> True | _ \<Rightarrow> False)"

definition is_concentration_alert_for :: "string \<Rightarrow> feedback \<Rightarrow> bool" where
  "is_concentration_alert_for symbol f \<longleftrightarrow>
     ftype f = RISK_ALERT \<and> (case message f of ConcentrationMsg _ s \<Rightarrow> s = symbol | _ \<Rightarrow> False)"

text \<open>
  The condition of line 75 under the test of line 71, and the feedback of lines 76 to 79.
\<close>

definition all_in_condition :: "portafolio \<Rightarrow> transaction \<Rightarrow> bool" where
  "all_in_condition p t \<longleftrightarrow>
     t_type t = Some ''BUY'' \<and> 0 < cash_before_tx p t
       \<and> 90 / 100 < tx_cost t / cash_before_tx p t"

definition all_in_alert :: "portafolio \<Rightarrow> transaction \<Rightarrow> feedback" where
  "all_in_alert p t =
     \<lparr>portafolioId = p_id p,
      message = AllInMsg (tx_cost t / cash_before_tx p t * 100) (t_activeSymbol t),
      ftype = RISK_ALERT\<rparr>"

text \<open>
  The feedback of lines 147 to 151, and the 24-hour change read at line 165.
\<close>

definition slippage_notice :: "transaction \<Rightarrow> ticker \<Rightarrow> feedback" where
  "slippage_notice t tk =
     \<lparr>portafolioId = t_portafolioId t,
      message = SlippageMsg (t_type t) (t_activeSymbol t) (slippage t tk / tx_price t * 100),
      ftype = COST_ANALYSIS\<rparr>"

definition price_change_24h :: "ticker \<Rightarrow> rat" where
  "price_change_24h tk = get_or (k_price_percent_chg_24_h tk) 0"

definition is_slippage_msg :: "message \<Rightarrow> bool" where
  "is_slippage_msg msg = (case msg of SlippageMsg _ _ _ \<Rightarrow> True | _ \<Rightarrow> False)"

definition is_commission_msg :: "message \<Rightarrow> bool" where
  "is_commission_msg msg = (case msg of CommissionMsg _ _ \<Rightarrow> True | _ \<Rightarrow> False)"

section \<open>Concrete inputs\<close>

text \<open>
  The portfolio and the purchase of the boundary scenario (cash 10 after buying 10 units),
  and the same purchase on a portfolio with no \<open>cash\<close> key.
\<close>

definition scenario_portafolio :: portafolio where
  "scenario_portafolio = \<lparr>p_id = Some ''p1'', p_cash = Some 10, p_holdings = Some []\<rparr>"

definition scenario_buy :: "rat \<Rightarrow> transaction" where
  "scenario_buy price =
     \<lparr>t_portafolioId = Some ''p1'', t_activeSymbol = Some ''X'', t_type = Some ''BUY'',
      t_price = Some price, t_amount = Some 10\<rparr>"

definition no_cash_portafolio :: portafolio where
  "no_cash_portafolio = \<lparr>p_id = Some ''p1'', p_cash = None, p_holdings = None\<rparr>"

text \<open>
  A snapshot that prices BTC at 70000, and four portfolios over it: one long unit, one short
  unit, one long unit against a debt of the same size, and BTC listed twice.
\<close>

definition btc_market :: market_data where
  "btc_market =
     [''BTC'' \<mapsto> \<lparr>k_price = Some 70000, k_best_ask = None, k_best_bid = None,
                   k_price_percent_chg_24_h = None\<rparr>]"

definition btc_portafolio :: portafolio where
  "btc_portafolio =
     \<lparr>p_id = Some ''p1'', p_cash = Some 0,
      p_holdings = Some [\<lparr>h_activeSymbol = Some ''BTC'', h_quantity = Some 1\<rparr>]\<rparr>"

definition short_portafolio :: portafolio where
  "short_portafolio =
     \<lparr>p_id = Some ''p1'', p_cash = Some 0,
      p_holdings = Some [\<lparr>h_activeSymbol = Some ''BTC'', h_quantity = Some (- 1)\<rparr>]\<rparr>"

definition hedged_portafolio :: portafolio where
  "hedged_portafolio =
     \<lparr>p_id = Some ''p1'', p_cash = Some (- 70000),
      p_holdings = Some [\<lparr>h_activeSymbol = Some ''BTC'', h_quantity = Some 1\<rparr>]\<rparr>"

definition twice_btc_portafolio :: portafolio where
  "twice_btc_portafolio =
     \<lparr>p_id = Some ''p1'', p_cash = Some 0,
      p_holdings = Some [\<lparr>h_activeSymbol = Some ''BTC'', h_quantity = Some 3\<rparr>,
                         \<lparr>h_activeSymbol = Some ''BTC'', h_quantity = Some 1\<rparr>]\<rparr>"

text \<open>
  Two sales of X against a best bid of 100: one at 95, one with no \<open>price\<close> key.
\<close>

definition sell_without_price :: transaction where
  "sell_without_price =
     \<lparr>t_portafolioId = Some ''p1'', t_activeSymbol = Some ''X'', t_type = Some ''SELL'',
      t_price = None, t_amount = Some 1\<rparr>"

definition sell_at_95 :: transaction where
  "sell_at_95 =
     \<lparr>t_portafolioId = Some ''p1'', t_activeSymbol = Some ''X'', t_type = Some ''SELL'',
      t_price = Some 95, t_amount = Some 1\<rparr>"

definition bid_100 :: ticker where
  "bid_100 =
     \<lparr>k_price = None, k_best_ask = None, k_best_bid = Some 100,
      k_price_percent_chg_24_h = Some (- 3)\<rparr>"

definition bid_market :: market_data where
  "bid_market = [''X'' \<mapsto> bid_100]"

definition failing_request :: request where
  "failing_request =
     \<lparr>r_portafolio = Some scenario_portafolio, r_transaction = Some sell_without_price,
      r_marketData = Some bid_market\<rparr>"

definition sell_request :: request where
  "sell_request =
     \<lparr>r_portafolio = Some scenario_portafolio, r_transaction = Some sell_at_95,
      r_marketData = Some bid_market\<rparr>"

section \<open>Runs\<close>

lemma and_then_returns [simp]: "and_then (returns x) k = k x"
  by (cases "k x") (simp add: and_then_def returns_def)

lemma and_then_raises [simp]: "and_then (raises e) k = raises e"
  by (simp add: and_then_def raises_def)

lemma and_then_send [simp]:
  "and_then (send_feedback_to_nestjs pid msg ty) k =
     (\<lparr>portafolioId = pid, message = msg, ftype = ty\<rparr> # fst (k ()), snd (k ()))"
  by (cases "k ()") (simp add: and_then_def send_feedback_to_nestjs_def)

lemma sent_simps [simp]:
  "sent (returns x) = []" "sent (raises e) = []" "sent (out, y) = out"
  "outcome (returns x) = Inr x" "outcome (raises e) = Inl e" "outcome (out, y) = y"
  by (simp_all add: sent_def outcome_def returns_def raises_def)

lemma sent_and_then:
  "sent (and_then r k) = sent r @ (case outcome r of Inl e \<Rightarrow> [] | Inr x \<Rightarrow> sent (k x))"
  by (cases r) (auto simp: and_then_def sent_def outcome_def split: sum.splits prod.splits)

lemma outcome_and_then:
  "outcome (and_then r k) = (case outcome r of Inl e \<Rightarrow> Inl e | Inr x \<Rightarrow> outcome (k x))"
  by (cases r) (auto simp: and_then_def outcome_def split: sum.splits prod.splits)

lemma truediv_nonzero: "b \<noteq> 0 \<Longrightarrow> truediv a b = returns (a / b)"
  by (simp add: truediv_def)

lemma truediv_zero: "truediv a 0 = raises ZeroDivisionError"
  by (simp add: truediv_def)

section \<open>The insertion-ordered dictionary\<close>

lemma set_first_seen [simp]: "set (first_seen xs) = set xs"
  by (induction xs) auto

lemma distinct_first_seen [simp]: "distinct (first_seen xs)"
  by (induction xs) auto

lemma keys_dict_set: "map fst (dict_set items k v) = key_insert k (map fst items)"
  by (induction items) (force simp: key_insert_def)+

lemma map_of_dict_set: "map_of (dict_set items k v) = (map_of items)(k \<mapsto> v)"
  by (induction items) (auto simp: fun_eq_iff)

lemma fold_key_insert:
  "fold key_insert xs ks = ks @ filter (\<lambda>k. k \<notin> set ks) (first_seen xs)"
proof (induction xs arbitrary: ks)
  case Nil
  then show ?case by simp
next
  case (Cons x xs)
  show ?case
  proof (cases "x \<in> set ks")
    case True
    then have "filter (\<lambda>k. k \<notin> set ks) (filter (\<lambda>y. y \<noteq> x) (first_seen xs))
                 = filter (\<lambda>k. k \<notin> set ks) (first_seen xs)"
      by (auto intro: filter_cong)
    with True Cons.IH [of ks] show ?thesis by (simp add: key_insert_def)
  next
    case False
    have "filter (\<lambda>k. k \<notin> set (ks @ [x])) (first_seen xs)
            = filter (\<lambda>k. k \<notin> set ks) (filter (\<lambda>y. y \<noteq> x) (first_seen xs))"
      by (auto intro: filter_cong)
    with False Cons.IH [of "ks @ [x]"] show ?thesis by (simp add: key_insert_def)
  qed
qed

section \<open>Valuation\<close>

lemma fst_value_holding:
  "fst (value_holding m h acc) = fst acc + holding_value m h"
  by (cases acc)
     (simp add: value_holding_def holding_value_def ticker_of_def Let_def split: option.splits)

lemma keys_value_holding:
  "map fst (snd (value_holding m h acc)) = fold key_insert (valued_symbol m h) (map fst (snd acc))"
  by (cases acc)
     (simp add: value_holding_def valued_symbol_def keys_dict_set Let_def split: option.splits)

lemma map_of_value_holding:
  "map_of (snd (value_holding m h acc)) s =
     (if valued_as m s h then Some (holding_value m h)
      else map_of (snd acc) s)"
  by (cases acc)
     (auto simp: value_holding_def holding_value_def ticker_of_def map_of_dict_set Let_def
           valued_as_def split: option.splits)

lemma fst_fold_value_holding:
  "fst (fold (value_holding m) hs acc) = fst acc + sum_list (map (holding_value m) hs)"
  by (induction hs arbitrary: acc) (simp_all add: fst_value_holding)

lemma keys_fold_value_holding:
  "map fst (snd (fold (value_holding m) hs acc)) =
     fold key_insert (concat (map (valued_symbol m) hs)) (map fst (snd acc))"
  by (induction hs arbitrary: acc) (simp_all add: keys_value_holding)

lemma map_of_fold_value_holding:
  "map_of (snd (fold (value_holding m) hs acc)) s =
     (if filter (valued_as m s) hs = [] then map_of (snd acc) s
      else Some (holding_value m
                   (last (filter (valued_as m s) hs))))"
proof (induction hs rule: rev_induct)
  case Nil
  then show ?case by simp
next
  case (snoc h hs)
  then show ?case
    by (simp add: map_of_value_holding)
qed

lemma total_value_eq:
  "total_value p m = get_or (p_cash p) 0 + sum_list (map (holding_value m) (holdings_of p))"
  by (simp add: total_value_def valuation_def holdings_of_def fst_fold_value_holding)

lemma keys_asset_values:
  "map fst (asset_values p m) = first_seen (valued_symbols p m)"
  by (simp add: asset_values_def valuation_def valued_symbols_def holdings_of_def
        keys_fold_value_holding fold_key_insert)

lemma map_of_asset_values:
  "map_of (asset_values p m) s =
     (if filter (valued_as m s) (holdings_of p) = [] then None
      else Some (holding_value m
             (last (filter (valued_as m s) (holdings_of p)))))"
  by (simp add: asset_values_def valuation_def holdings_of_def map_of_fold_value_holding)

section \<open>What the risk evaluator sends\<close>

lemma all_in_rule_eq:
  "all_in_rule p t =
     (if t_type t = Some ''BUY'' \<and> 0 < cash_before_tx p t
         \<and> 90 / 100 < tx_cost t / cash_before_tx p t
      then send_feedback_to_nestjs (p_id p)
             (AllInMsg (tx_cost t / cash_before_tx p t * 100) (t_activeSymbol t)) RISK_ALERT
      else returns ())"
  by (simp add: all_in_rule_def truediv_nonzero)

lemma all_in_rule_eq':
  "all_in_rule p t =
     (if all_in_condition p t then send_feedback_to_nestjs (p_id p) (message (all_in_alert p t)) RISK_ALERT
      else returns ())"
  unfolding all_in_condition_def all_in_alert_def by (simp add: all_in_rule_eq)

lemma concentration_loop_eq:
  "tv \<noteq> 0 \<Longrightarrow>
   concentration_loop pid tv items =
     (map (\<lambda>(s, v). \<lparr>portafolioId = pid, message = ConcentrationMsg (v / tv * 100) s,
                      ftype = RISK_ALERT\<rparr>)
        (filter (\<lambda>(s, v). 60 < v / tv * 100) items), Inr ())"
proof (induction items)
  case Nil
  then show ?case by (simp add: returns_def)
next
  case (Cons item items)
  obtain s v where item: "item = (s, v)" by (cases item)
  have step: "concentration_loop pid tv (item # items) =
      and_then
        (if 60 < v / tv * 100 then
           send_feedback_to_nestjs pid (ConcentrationMsg (v / tv * 100) s) RISK_ALERT
         else returns ())
        (\<lambda>_. concentration_loop pid tv items)"
    by (simp only: item concentration_loop.simps truediv_nonzero [OF Cons.prems] and_then_returns)
  show ?case
  proof (cases "60 < v / tv * 100")
    case True
    then show ?thesis
      unfolding step using Cons.IH [OF Cons.prems] by (simp only: item if_True and_then_send) simp
  next
    case False
    then show ?thesis
      unfolding step using Cons.IH [OF Cons.prems] by (simp only: item if_False and_then_returns) simp
  qed
qed

lemma concat_map_of_keys:
  assumes "distinct (map fst items)"
  shows "concat (map (\<lambda>s. G s (map_of items s)) (map fst items)) =
         concat (map (\<lambda>(s, v). G s (Some v)) items)"
proof -
  have "map (\<lambda>s. G s (map_of items s)) (map fst items) = map (\<lambda>(s, v). G s (Some v)) items"
    using assms by auto
  then show ?thesis by (simp only:)
qed

lemma concat_map_if:
  "concat (map (\<lambda>(s, v). if P s v then [F s v] else []) items) =
   map (\<lambda>(s, v). F s v) (filter (\<lambda>(s, v). P s v) items)"
  by (induction items) auto

lemma concentration_rule_eq:
  "concentration_rule p m =
     (concat (map (concentration_alerts_for p m) (first_seen (valued_symbols p m))), Inr ())"
proof (cases "total_value p m = 0")
  case True
  have "concentration_alerts_for p m s = []" for s
    by (simp add: concentration_alerts_for_def concentration_def True)
  then show ?thesis by (simp add: concentration_rule_def True returns_def)
next
  case False
  let ?tv = "total_value p m"
  let ?G = "\<lambda>s ov. case ov of None \<Rightarrow> []
              | Some v \<Rightarrow> (if 60 < v / ?tv * 100
                  then [\<lparr>portafolioId = p_id p, message = ConcentrationMsg (v / ?tv * 100) s,
                          ftype = RISK_ALERT\<rparr>] else [])"
  have dist: "distinct (map fst (asset_values p m))"
    by (simp add: keys_asset_values)
  have "concentration_alerts_for p m = (\<lambda>s. ?G s (map_of (asset_values p m) s))"
    by (auto simp: fun_eq_iff concentration_alerts_for_def concentration_def False
             split: option.splits)
  then have "concat (map (concentration_alerts_for p m) (first_seen (valued_symbols p m)))
        = concat (map (\<lambda>s. ?G s (map_of (asset_values p m) s)) (map fst (asset_values p m)))"
    by (simp only: keys_asset_values)
  also have "\<dots> = concat (map (\<lambda>(s, v). ?G s (Some v)) (asset_values p m))"
    by (rule concat_map_of_keys [OF dist])
  also have "\<dots> = map (\<lambda>(s, v). \<lparr>portafolioId = p_id p,
                        message = ConcentrationMsg (v / ?tv * 100) s, ftype = RISK_ALERT\<rparr>)
                     (filter (\<lambda>(s, v). 60 < v / ?tv * 100) (asset_values p m))"
    by (simp only: option.case concat_map_if)
  finally show ?thesis
    by (simp only: concentration_rule_def False if_False concentration_loop_eq [OF False])
qed

lemma analyze_risk_eq:
  "analyze_risk p t m =
     ((if all_in_condition p t
       then [all_in_alert p t] else [])
      @ concat (map (concentration_alerts_for p m) (first_seen (valued_symbols p m))), Inr ())"
  by (cases "all_in_condition p t")
     (simp_all add: analyze_risk_def all_in_rule_eq' concentration_rule_eq all_in_alert_def)

lemma concentration_alerts_for_cases:
  "concentration_alerts_for p m s = [] \<or>
   (\<exists>c. concentration_alerts_for p m s =
      [\<lparr>portafolioId = p_id p, message = ConcentrationMsg c s, ftype = RISK_ALERT\<rparr>])"
  by (simp add: concentration_alerts_for_def split: option.splits)

lemma filter_all_in_concentration_alerts_for:
  "filter is_all_in_alert (concentration_alerts_for p m s) = []"
  using concentration_alerts_for_cases [of p m s] by (auto simp: is_all_in_alert_def)

lemma filter_concentration_concentration_alerts_for:
  "filter is_concentration_alert (concentration_alerts_for p m s) = concentration_alerts_for p m s"
  using concentration_alerts_for_cases [of p m s] by (auto simp: is_concentration_alert_def)

lemma filter_for_concentration_alerts_for:
  "filter (is_concentration_alert_for s') (concentration_alerts_for p m s) =
     (if s = s' then concentration_alerts_for p m s' else [])"
  using concentration_alerts_for_cases [of p m s] by (auto simp: is_concentration_alert_for_def)

lemma all_in_alert_kind:
  "is_all_in_alert (all_in_alert p t) \<and> \<not> is_concentration_alert (all_in_alert p t)
   \<and> \<not> is_concentration_alert_for s (all_in_alert p t)"
  by (simp add: all_in_alert_def is_all_in_alert_def is_concentration_alert_def
        is_concentration_alert_for_def)

lemma filter_concentration_part:
  "filter is_all_in_alert (concat (map (concentration_alerts_for p m) xs)) = []"
  "filter is_concentration_alert (concat (map (concentration_alerts_for p m) xs))
     = concat (map (concentration_alerts_for p m) xs)"
  by (induction xs)
     (simp_all add: filter_all_in_concentration_alerts_for
        filter_concentration_concentration_alerts_for)

lemma filter_for_symbol:
  "filter (is_concentration_alert_for s) (concat (map (concentration_alerts_for p m) xs))
     = concat (map (\<lambda>x. if x = s then concentration_alerts_for p m s else []) xs)"
  by (induction xs) (simp_all add: filter_for_concentration_alerts_for)

lemma concat_map_single:
  "distinct xs \<Longrightarrow>
   concat (map (\<lambda>x. if x = s then ys else []) xs) = (if s \<in> set xs then ys else [])"
  by (induction xs) auto

lemma sent_analyze_risk_all_in:
  "filter is_all_in_alert (sent (analyze_risk p t m)) =
     (if all_in_condition p t
      then [all_in_alert p t] else [])"
  by (simp add: analyze_risk_eq sent_def filter_concentration_part all_in_alert_kind)

lemma sent_analyze_risk_concentration:
  "filter is_concentration_alert (sent (analyze_risk p t m)) =
     concat (map (concentration_alerts_for p m) (first_seen (valued_symbols p m)))"
  by (simp add: analyze_risk_eq sent_def filter_concentration_part all_in_alert_kind)

lemma sent_analyze_risk_for_symbol:
  "filter (is_concentration_alert_for s) (sent (analyze_risk p t m)) =
     (if s \<in> set (valued_symbols p m) then concentration_alerts_for p m s else [])"
  by (simp add: analyze_risk_eq sent_def filter_for_symbol concat_map_single all_in_alert_kind)

text \<open>
  Both divisions of the risk evaluator are guarded, so no exception escapes it.
\<close>

lemma outcome_analyze_risk: "outcome (analyze_risk p t m) = Inr ()"
  by (simp add: analyze_risk_eq outcome_def)

lemma valuation_btc:
  "total_value btc_portafolio btc_market = 70000"
  "total_value short_portafolio btc_market = - 70000"
  "total_value hedged_portafolio btc_market = 0"
  "total_value twice_btc_portafolio btc_market = 280000"
  by (simp_all add: total_value_eq holdings_of_def btc_portafolio_def short_portafolio_def
        hedged_portafolio_def twice_btc_portafolio_def btc_market_def holding_value_def
        ticker_of_def get_or_def)

lemma asset_values_btc:
  "asset_values btc_portafolio btc_market = [(''BTC'', 70000)]"
  "asset_values short_portafolio btc_market = [(''BTC'', - 70000)]"
  "asset_values twice_btc_portafolio btc_market = [(''BTC'', 70000)]"
  by (simp_all add: asset_values_def valuation_def value_holding_def holdings_of_def
        btc_portafolio_def short_portafolio_def twice_btc_portafolio_def btc_market_def
        get_or_def)

lemma valued_symbols_btc:
  "valued_symbols btc_portafolio btc_market = [''BTC'']"
  "valued_symbols short_portafolio btc_market = [''BTC'']"
  "valued_symbols twice_btc_portafolio btc_market = [''BTC'', ''BTC'']"
  by (simp_all add: valued_symbols_def valued_symbol_def holdings_of_def btc_portafolio_def
        short_portafolio_def twice_btc_portafolio_def btc_market_def get_or_def)

lemma p_id_btc:
  "p_id btc_portafolio = Some ''p1''"
  "p_id short_portafolio = Some ''p1''"
  by (simp_all add: btc_portafolio_def short_portafolio_def)

subsection \<open>The all-in rule\<close>





subsection \<open>The concentration rule\<close>






text \<open>
  Claim C9. When a symbol of the snapshot occurs in two or more holdings, the total portfolio
  value sums the value of every holding, each occurrence counting with its own quantity; the
  value stored for the symbol, and used for its concentration, is the quantity of the last
  occurrence times the snapshot price; and at most one concentration alert is sent for the
  symbol.
\<close>

theorem duplicate_symbol_last_value_wins:
  assumes "m s = Some tk"
    and "2 \<le> length (filter (\<lambda>h. h_activeSymbol h = Some s) (holdings_of p))"
  shows "total_value p m = get_or (p_cash p) 0 + sum_list (map (holding_value m) (holdings_of p))
    \<and> (\<forall>h \<in> set (holdings_of p). h_activeSymbol h = Some s \<longrightarrow>
          holding_value m h = get_or (h_quantity h) 0 * get_or (k_price tk) 0)
    \<and> map_of (asset_values p m) s =
          Some (get_or (h_quantity (last (filter (\<lambda>h. h_activeSymbol h = Some s) (holdings_of p)))) 0
                  * get_or (k_price tk) 0)
    \<and> concentration p m s =
          (if total_value p m = 0 then None
           else Some (get_or (h_quantity (last (filter (\<lambda>h. h_activeSymbol h = Some s)
                                                   (holdings_of p)))) 0
                        * get_or (k_price tk) 0 / total_value p m * 100))
    \<and> length (filter (is_concentration_alert_for s) (sent (analyze_risk p t m))) \<le> 1"
proof -
  let ?occ = "filter (\<lambda>h. h_activeSymbol h = Some s) (holdings_of p)"
  have same: "valued_as m s = (\<lambda>h. h_activeSymbol h = Some s)"
    by (simp add: fun_eq_iff valued_as_def assms(1))
  from assms(2) have nonempty: "?occ \<noteq> []" by auto
  then have "last ?occ \<in> set ?occ" by (rule last_in_set)
  then have last_symbol: "h_activeSymbol (last ?occ) = Some s" by simp
  have occ_value: "holding_value m h = get_or (h_quantity h) 0 * get_or (k_price tk) 0"
    if "h_activeSymbol h = Some s" for h
    using that by (simp add: holding_value_def ticker_of_def assms(1))
  have stored: "map_of (asset_values p m) s =
                  Some (get_or (h_quantity (last ?occ)) 0 * get_or (k_price tk) 0)"
    using nonempty by (simp add: map_of_asset_values same occ_value [OF last_symbol])
  have "length (concentration_alerts_for p m s) \<le> 1"
    using concentration_alerts_for_cases [of p m s] by auto
  then have once: "length (filter (is_concentration_alert_for s) (sent (analyze_risk p t m))) \<le> 1"
    by (simp add: sent_analyze_risk_for_symbol)
  show ?thesis
    using once by (simp add: total_value_eq [symmetric] occ_value stored concentration_def)
qed

text \<open>
  BTC held as 3 units and then as 1 unit at 70000: the total is 280000, the stored value is
  70000 and the concentration is 25.
\<close>

theorem duplicate_symbol_last_value_wins_witness:
  "total_value twice_btc_portafolio btc_market = 280000
   \<and> map_of (asset_values twice_btc_portafolio btc_market) ''BTC'' = Some 70000
   \<and> concentration twice_btc_portafolio btc_market ''BTC'' = Some 25
   \<and> length (filter (is_concentration_alert_for ''BTC'')
        (sent (analyze_risk twice_btc_portafolio empty_transaction btc_market))) \<le> 1"
  using duplicate_symbol_last_value_wins [of btc_market "''BTC''"
      "\<lparr>k_price = Some 70000, k_best_ask = None, k_best_bid = None,
        k_price_percent_chg_24_h = None\<rparr>" twice_btc_portafolio empty_transaction]
  by (simp add: btc_market_def twice_btc_portafolio_def holdings_of_def holding_value_def
        ticker_of_def get_or_def)

section \<open>What the cost and slippage evaluator sends\<close>

lemma slippage_eq_max:
  "slippage t tk =
     (if t_type t = Some ''BUY'' then max 0 (tx_price t - get_or (k_best_ask tk) (tx_price t))
      else if t_type t = Some ''SELL'' then max 0 (get_or (k_best_bid tk) (tx_price t) - tx_price t)
      else 0)"
  by (simp add: slippage_def Let_def max_def)

lemma slippage_nonneg: "0 \<le> slippage t tk"
  by (simp add: slippage_def Let_def)

lemma slippage_default:
  "t_type t = Some ''BUY'' \<Longrightarrow> k_best_ask tk = None \<Longrightarrow> slippage t tk = 0"
  "t_type t = Some ''SELL'' \<Longrightarrow> k_best_bid tk = None \<Longrightarrow> slippage t tk = 0"
  by (simp_all add: slippage_def get_or_def)

lemma analyze_costs_absent:
  "ticker_of m (t_activeSymbol t) = None \<Longrightarrow> analyze_costs_and_slippage t m = returns ()"
  by (simp add: analyze_costs_and_slippage_def Let_def)

lemma analyze_costs_present:
  assumes "ticker_of m (t_activeSymbol t) = Some tk"
  shows "analyze_costs_and_slippage t m =
     (if 0 < slippage t tk then
        (if tx_price t = 0 then raises ZeroDivisionError
         else if SLIPPAGE_TOLERANCE < slippage t tk / tx_price t
              then ([slippage_notice t tk], Inr ())
              else returns ())
      else returns ())"
proof (cases "tx_price t = 0")
  case True
  then show ?thesis
    by (simp add: analyze_costs_and_slippage_def Let_def assms truediv_zero)
next
  case False
  show ?thesis
    by (cases "SLIPPAGE_TOLERANCE < slippage t tk / tx_price t")
       (simp_all add: analyze_costs_and_slippage_def Let_def assms truediv_nonzero [OF False]
          False slippage_notice_def send_feedback_to_nestjs_def)
qed

lemma outcome_analyze_costs:
  "outcome (analyze_costs_and_slippage t m) =
     (case ticker_of m (t_activeSymbol t) of
        None \<Rightarrow> Inr ()
      | Some tk \<Rightarrow>
          (if 0 < slippage t tk \<and> tx_price t = 0 then Inl ZeroDivisionError else Inr ()))"
  by (simp add: analyze_costs_absent analyze_costs_present split: option.splits)

lemma ticker_of_bid_market:
  "ticker_of bid_market (t_activeSymbol sell_without_price) = Some bid_100"
  "ticker_of bid_market (t_activeSymbol sell_at_95) = Some bid_100"
  by (simp_all add: ticker_of_def bid_market_def sell_without_price_def sell_at_95_def)

lemma slippage_bid_100:
  "slippage sell_without_price bid_100 = 100" "tx_price sell_without_price = 0"
  "slippage sell_at_95 bid_100 = 5" "tx_price sell_at_95 = 95"
  by (simp_all add: slippage_def tx_price_def sell_without_price_def sell_at_95_def bid_100_def
        get_or_def)



text \<open>
  Claim C3. The claim is that no exception escapes the evaluators, whatever fields are
  missing. A SELL with no \<open>price\<close> key, on a symbol whose best bid is 100, reads the price
  as 0 and the slippage as 100, and the division of line 146 raises ZeroDivisionError.
\<close>

theorem cost_evaluator_raises_without_price:
  "analyze_costs_and_slippage sell_without_price bid_market = raises ZeroDivisionError"
  by (simp add: analyze_costs_present [OF ticker_of_bid_market(1)] slippage_bid_100)

section \<open>What the behaviour evaluator sends\<close>

lemma analyze_behavior_eq:
  "analyze_behavior t m =
     (case ticker_of m (t_activeSymbol t) of
        None \<Rightarrow> returns ()
      | Some tk \<Rightarrow>
          (if t_type t = Some ''BUY'' \<and> 0 < price_change_24h tk then
             ([\<lparr>portafolioId = t_portafolioId t,
                message = FomoMsg (t_activeSymbol t) (price_change_24h tk),
                ftype = BEHAVIORAL_NUDGE\<rparr>], Inr ())
           else if t_type t = Some ''SELL'' \<and> price_change_24h tk < 0 then
             ([\<lparr>portafolioId = t_portafolioId t,
                message = PanicMsg (t_activeSymbol t) (price_change_24h tk),
                ftype = BEHAVIORAL_NUDGE\<rparr>], Inr ())
           else returns ()))"
  by (simp add: analyze_behavior_def Let_def price_change_24h_def send_feedback_to_nestjs_def
        split: option.splits)

lemma outcome_analyze_behavior: "outcome (analyze_behavior t m) = Inr ()"
  by (simp add: analyze_behavior_eq split: option.splits)



section \<open>The handler\<close>

lemma analyze_trade_missing_id:
  assumes "p_id (get_or (r_portafolio data) empty_portafolio) = None
           \<or> p_id (get_or (r_portafolio data) empty_portafolio) = Some []"
  shows "analyze_trade data = ([], Inr (ErrorBody ''No portafolio ID provided''))"
  using assms by (auto simp: analyze_trade_def Let_def returns_def)

lemma analyze_trade_with_id:
  assumes "p_id (get_or (r_portafolio data) empty_portafolio) \<noteq> None"
    and "p_id (get_or (r_portafolio data) empty_portafolio) \<noteq> Some []"
  shows "analyze_trade data =
     and_then (analyze_risk (get_or (r_portafolio data) empty_portafolio)
                 (get_or (r_transaction data) empty_transaction)
                 (get_or (r_marketData data) Map.empty))
       (\<lambda>_. and_then (analyze_costs_and_slippage (get_or (r_transaction data) empty_transaction)
                         (get_or (r_marketData data) Map.empty))
          (\<lambda>_. and_then (analyze_behavior (get_or (r_transaction data) empty_transaction)
                            (get_or (r_marketData data) Map.empty))
             (\<lambda>_. returns (StatusBody ''analysis_queued''))))"
  using assms by (auto simp: analyze_trade_def Let_def)

lemma sent_analyze_trade_subset:
  "set (sent (analyze_trade data)) \<subseteq>
     set (sent (analyze_risk (get_or (r_portafolio data) empty_portafolio)
                 (get_or (r_transaction data) empty_transaction)
                 (get_or (r_marketData data) Map.empty)))
     \<union> set (sent (analyze_costs_and_slippage (get_or (r_transaction data) empty_transaction)
                     (get_or (r_marketData data) Map.empty)))
     \<union> set (sent (analyze_behavior (get_or (r_transaction data) empty_transaction)
                     (get_or (r_marketData data) Map.empty)))"
proof (cases "p_id (get_or (r_portafolio data) empty_portafolio) = None
           \<or> p_id (get_or (r_portafolio data) empty_portafolio) = Some []")
  case True
  then show ?thesis by (simp add: analyze_trade_missing_id)
next
  case False
  then show ?thesis
    by (simp add: analyze_trade_with_id sent_and_then split: sum.splits) blast
qed

text \<open>
  With an identifier, and a cost evaluator that returns, the handler runs the three
  evaluators in order and answers \<^verbatim>\<open>analysis_queued\<close>.
\<close>

lemma analyze_trade_queued:
  assumes "p_id (get_or (r_portafolio data) empty_portafolio) \<noteq> None"
    and "p_id (get_or (r_portafolio data) empty_portafolio) \<noteq> Some []"
    and "outcome (analyze_costs_and_slippage (get_or (r_transaction data) empty_transaction)
                    (get_or (r_marketData data) Map.empty)) = Inr ()"
  shows "outcome (analyze_trade data) = Inr (StatusBody ''analysis_queued'')
    \<and> sent (analyze_trade data) =
        sent (analyze_risk (get_or (r_portafolio data) empty_portafolio)
                 (get_or (r_transaction data) empty_transaction)
                 (get_or (r_marketData data) Map.empty))
        @ sent (analyze_costs_and_slippage (get_or (r_transaction data) empty_transaction)
                     (get_or (r_marketData data) Map.empty))
        @ sent (analyze_behavior (get_or (r_transaction data) empty_transaction)
                     (get_or (r_marketData data) Map.empty))"
  using assms
  by (simp add: analyze_trade_with_id sent_and_then outcome_and_then outcome_analyze_risk
        outcome_analyze_behavior)

lemma analyze_risk_feedback:
  "f \<in> set (sent (analyze_risk p t m)) \<Longrightarrow> ftype f = RISK_ALERT \<and> \<not> is_commission_msg (message f)"
proof -
  assume "f \<in> set (sent (analyze_risk p t m))"
  then consider "f = all_in_alert p t"
    | s where "f \<in> set (concentration_alerts_for p m s)"
    by (auto simp: analyze_risk_eq split: if_splits)
  then show ?thesis
  proof cases
    case 1
    then show ?thesis by (simp add: all_in_alert_def is_commission_msg_def)
  next
    case 2
    then show ?thesis
      using concentration_alerts_for_cases [of p m s] by (auto simp: is_commission_msg_def)
  qed
qed

lemma analyze_costs_feedback:
  "f \<in> set (sent (analyze_costs_and_slippage t m)) \<Longrightarrow>
     ftype f = COST_ANALYSIS \<and> is_slippage_msg (message f) \<and> \<not> is_commission_msg (message f)"
  by (cases "ticker_of m (t_activeSymbol t)")
     (auto simp: analyze_costs_absent analyze_costs_present slippage_notice_def
        is_slippage_msg_def is_commission_msg_def split: if_splits)

lemma analyze_behavior_feedback:
  "f \<in> set (sent (analyze_behavior t m)) \<Longrightarrow>
     ftype f = BEHAVIORAL_NUDGE \<and> \<not> is_commission_msg (message f)"
  by (auto simp: analyze_behavior_eq is_commission_msg_def split: option.splits if_splits)

lemma analyze_risk_scenario_sell:
  "analyze_risk scenario_portafolio sell_without_price bid_market = returns ()"
  "analyze_risk scenario_portafolio sell_at_95 bid_market = returns ()"
  by (simp_all add: analyze_risk_eq all_in_condition_def valued_symbols_def holdings_of_def
        scenario_portafolio_def sell_without_price_def sell_at_95_def get_or_def returns_def)

lemma analyze_trade_sell_request:
  "analyze_trade sell_request =
     ([\<lparr>portafolioId = Some ''p1'', message = SlippageMsg (Some ''SELL'') (Some ''X'') (100 / 19),
        ftype = COST_ANALYSIS\<rparr>,
       \<lparr>portafolioId = Some ''p1'', message = PanicMsg (Some ''X'') (- 3),
        ftype = BEHAVIORAL_NUDGE\<rparr>], Inr (StatusBody ''analysis_queued''))"
proof -
  have id: "p_id (get_or (r_portafolio sell_request) empty_portafolio) = Some ''p1''"
    by (simp add: sell_request_def get_or_def scenario_portafolio_def)
  have parts: "get_or (r_portafolio sell_request) empty_portafolio = scenario_portafolio"
    "get_or (r_transaction sell_request) empty_transaction = sell_at_95"
    "get_or (r_marketData sell_request) Map.empty = bid_market"
    by (simp_all add: sell_request_def get_or_def)
  have cost: "analyze_costs_and_slippage sell_at_95 bid_market =
     ([\<lparr>portafolioId = Some ''p1'', message = SlippageMsg (Some ''SELL'') (Some ''X'') (100 / 19),
        ftype = COST_ANALYSIS\<rparr>], Inr ())"
    by (simp add: analyze_costs_present [OF ticker_of_bid_market(2)] slippage_bid_100
          SLIPPAGE_TOLERANCE_def slippage_notice_def)
       (simp add: sell_at_95_def)
  have beh: "analyze_behavior sell_at_95 bid_market =
     ([\<lparr>portafolioId = Some ''p1'', message = PanicMsg (Some ''X'') (- 3),
        ftype = BEHAVIORAL_NUDGE\<rparr>], Inr ())"
    by (simp add: analyze_behavior_eq ticker_of_bid_market price_change_24h_def bid_100_def
          get_or_def)
       (simp add: sell_at_95_def)
  show ?thesis
    using id by (simp add: analyze_trade_with_id parts analyze_risk_scenario_sell cost beh
          and_then_def returns_def)
qed



text \<open>
  Claim C7. The claim is that a request with a non-empty identifier runs the three
  evaluators and is answered \<^verbatim>\<open>analysis_queued\<close>. The request of portfolio p1 with a
  SELL that has no \<open>price\<close> key, on a symbol whose best bid is 100, is not answered: the
  cost and slippage evaluator raises ZeroDivisionError, the behaviour evaluator is not run,
  and the exception leaves the handler.
\<close>

theorem analyze_trade_raises_without_price:
  "analyze_trade failing_request = raises ZeroDivisionError"
proof -
  have id: "p_id (get_or (r_portafolio failing_request) empty_portafolio) = Some ''p1''"
    by (simp add: failing_request_def get_or_def scenario_portafolio_def)
  have parts: "get_or (r_portafolio failing_request) empty_portafolio = scenario_portafolio"
    "get_or (r_transaction failing_request) empty_transaction = sell_without_price"
    "get_or (r_marketData failing_request) Map.empty = bid_market"
    by (simp_all add: failing_request_def get_or_def)
  have cost: "analyze_costs_and_slippage sell_without_price bid_market = raises ZeroDivisionError"
    by (simp add: analyze_costs_present [OF ticker_of_bid_market(1)] slippage_bid_100)
  show ?thesis
    using id by (simp add: analyze_trade_with_id parts analyze_risk_scenario_sell cost)
qed

end
